theory Spec2Isabelle
  imports Complex_Main
begin

section \<open>The load-test definition \<^verbatim>\<open>locustfile.py\<close>\<close>

text \<open>
  The program is one user class of a load-testing framework:
  \<^verbatim>\<open>
  class ApiUser(HttpUser):
      host = "https://xen-global-system-895330382127.europe-west1.run.app"
      wait_time = between(1, 5)

      @task
      def get_endpoint(self):
          self.client.get("/infrastructure-info")
  \<close>
  The class attributes and the task are the program. The HTTP client, the wait policy
  \<^verbatim>\<open>between\<close> and the loop that drives a user belong to the framework, whose code is
  not part of the repository: each is a definition marked as modelled from the
  specification, and says which sentence it follows.
\<close>

subsection \<open>HTTP vocabulary and the world a task acts on\<close>

datatype http_method = GET | HEAD | POST | PUT | PATCH | DELETE | OPTIONS

text \<open>
  The keyword arguments of a client call (\<^verbatim>\<open>params=\<close>, \<^verbatim>\<open>data=\<close>, \<^verbatim>\<open>json=\<close>,
  \<^verbatim>\<open>headers=\<close>), by keyword, in the order written. The call of the program has none.
\<close>

type_synonym kwargs = "(string \<times> string) list"

text \<open>
  A request as it leaves the client. \<open>rq_headers\<close> holds only what the caller adds to the
  headers the framework sends by itself.
\<close>

record http_request =
  rq_method :: http_method
  rq_url :: string
  rq_params :: "string option"
  rq_data :: "string option"
  rq_json :: "string option"
  rq_headers :: "string option"

text \<open>
  What comes back for a request: a response with its status code and content, or a
  failure of the network.
\<close>

datatype http_outcome = Responded nat string | ConnectionRefused | TimedOut

datatype event = Request http_request | Sleep real

text \<open>
  Everything outside the user object. \<open>network\<close> is the environment's input: the answer
  the \<open>n\<close>-th request of the run will get. \<open>timeline\<close> is what the user did, oldest
  first; \<open>stats\<close> is the engine's record of each request with its outcome; \<open>files\<close> is
  the file system, by path.
\<close>

record world =
  network :: "nat \<Rightarrow> http_outcome"
  timeline :: "event list"
  stats :: "(http_request \<times> http_outcome) list"
  files :: "(string \<times> string) list"

fun requests_of :: "event list \<Rightarrow> http_request list" where
  "requests_of [] = []"
| "requests_of (Request rq # es) = rq # requests_of es"
| "requests_of (Sleep d # es) = requests_of es"

subsection \<open>The framework's side of the interface\<close>

record http_session =
  base_url :: string

text \<open>
  Modelled from the spec: the framework's HTTP client (\<^verbatim>\<open>self.client\<close>), which is missing
  from the sources. The spec: the operation "sends an HTTP GET to \<^verbatim>\<open><host>/infrastructure-info\<close>",
  so the client puts the path behind the host it is bound to; "the external engine
  records" the status; a failure "is passed through to the external engine's
  statistics/failure-reporting mechanism unmodified"; the side effects are "network I/O
  only". The call hands the outcome back to the task as its response object. What a
  client may add of its own to a request (default headers, cookies it keeps, redirects
  it follows) is not described by the spec and is not part of this model: a request here
  is what the client builds from the arguments of the call.
\<close>

definition request :: "http_session \<Rightarrow> http_method \<Rightarrow> string \<Rightarrow> kwargs \<Rightarrow> world \<Rightarrow> http_outcome \<times> world" where
  "request c m path kw w =
     (let rq = \<lparr>rq_method = m, rq_url = base_url c @ path,
                rq_params = map_of kw ''params'', rq_data = map_of kw ''data'',
                rq_json = map_of kw ''json'', rq_headers = map_of kw ''headers''\<rparr>;
          out = network w (length (stats w))
      in (out, w\<lparr>timeline := timeline w @ [Request rq], stats := stats w @ [(rq, out)]\<rparr>))"

text \<open>
  Modelled from the spec: the client's method \<^verbatim>\<open>get\<close>, missing from the sources: the
  request above with the method GET.
\<close>

definition get :: "http_session \<Rightarrow> string \<Rightarrow> kwargs \<Rightarrow> world \<Rightarrow> http_outcome \<times> world" where
  "get c path kw w = request c GET path kw w"

text \<open>
  Modelled from the spec: the framework's wait policy \<^verbatim>\<open>between(min_wait, max_wait)\<close>,
  missing from the sources. The spec: a "random delay between two bounds, uniformly
  distributed". The random draw is an argument: \<open>r\<close> is the sample of the interval from 0
  (included) to 1 (excluded) that the framework draws for one wait, and the delay is the
  point of the interval between the bounds at that fraction. Python computes it in
  floating point; the model computes it in the reals.
\<close>

definition between :: "real \<Rightarrow> real \<Rightarrow> real \<Rightarrow> real" where
  "between min_wait max_wait r = min_wait + r * (max_wait - min_wait)"

subsection \<open>The user class\<close>

text \<open>
  A user object: the attributes \<^verbatim>\<open>host\<close> and \<^verbatim>\<open>wait_time\<close> of the class and the
  \<^verbatim>\<open>client\<close> the framework gives every HTTP user.
\<close>

record api_user =
  host :: string
  wait_time :: "real \<Rightarrow> real"
  client :: http_session

text \<open>The class attribute \<^verbatim>\<open>host\<close> (line 4).\<close>

definition ApiUser_host :: string where
  "ApiUser_host = ''https://xen-global-system-895330382127.europe-west1.run.app''"

text \<open>The class attribute \<^verbatim>\<open>wait_time = between(1, 5)\<close> (line 5).\<close>

definition ApiUser_wait_time :: "real \<Rightarrow> real" where
  "ApiUser_wait_time = between 1 5"

text \<open>
  Modelled from the spec: the creation of a session by the engine, missing from the
  sources. The spec: a session has a "target host (string, constant for the run)" and
  the wait policy, and the engine offers "an HTTP client accessible from within a task";
  the client is bound to the session's host. The host is an argument, since the spec's
  scenario configures another one.
\<close>

definition new_user :: "string \<Rightarrow> api_user" where
  "new_user h = \<lparr>host = h, wait_time = ApiUser_wait_time, client = \<lparr>base_url = h\<rparr>\<rparr>"

text \<open>A session of the class as the file declares it.\<close>

definition ApiUser :: api_user where
  "ApiUser = new_user ApiUser_host"

text \<open>
  The task (lines 7 to 9). The body is one expression statement: the call of the
  client's \<^verbatim>\<open>get\<close> with the literal path and no keyword argument. Its value is dropped,
  nothing is assigned, and the method ends without a \<^verbatim>\<open>return\<close>, so it returns Python's
  \<^verbatim>\<open>None\<close>. The result is the returned value (\<open>None\<close> for \<^verbatim>\<open>None\<close>, \<open>Some\<close> for a
  response), the user object after the call and the world after the call.
\<close>

definition get_endpoint :: "api_user \<Rightarrow> world \<Rightarrow> http_outcome option \<times> api_user \<times> world" where
  "get_endpoint self w =
     (case get (client self) ''/infrastructure-info'' [] w of
        (response, w') \<Rightarrow> (None, self, w'))"

text \<open>
  The tasks of the class: the methods the decorator \<^verbatim>\<open>@task\<close> marks, by name, in the
  order of the file.
\<close>

definition tasks :: "(string \<times> (api_user \<Rightarrow> world \<Rightarrow> http_outcome option \<times> api_user \<times> world)) list" where
  "tasks = [(''get_endpoint'', get_endpoint)]"

subsection \<open>The engine's loop\<close>

text \<open>
  Modelled from the spec: one cycle of the engine's task loop, missing from the sources.
  The spec: a task is "selected repeatedly by the driving engine", and "after each task
  completes, the simulated user pauses for a duration drawn uniformly at random from
  [1, 5] seconds before selecting the next task". The engine's two random draws of a cycle
  are arguments: \<open>k\<close> chooses among the tasks of the class, \<open>r\<close> is the sample for the wait.
\<close>

definition task_cycle :: "nat \<times> real \<Rightarrow> api_user \<Rightarrow> world \<Rightarrow> api_user \<times> world" where
  "task_cycle c self w =
     (case snd (tasks ! (fst c mod length tasks)) self w of
        (result, self', w') \<Rightarrow>
          (self', w'\<lparr>timeline := timeline w' @ [Sleep (wait_time self' (snd c))]\<rparr>))"

text \<open>
  Modelled from the spec: the loop itself, "until the engine terminates the session":
  one cycle for each pair of draws.
\<close>

fun run_user :: "(nat \<times> real) list \<Rightarrow> api_user \<Rightarrow> world \<Rightarrow> api_user \<times> world" where
  "run_user [] self w = (self, w)"
| "run_user (c # cs) self w = (case task_cycle c self w of (self', w') \<Rightarrow> run_user cs self' w')"

text \<open>The request every call of the task sends, for a client bound to \<open>h\<close>.\<close>

definition the_request :: "string \<Rightarrow> http_request" where
  "the_request h =
     \<lparr>rq_method = GET, rq_url = h @ ''/infrastructure-info'',
      rq_params = None, rq_data = None, rq_json = None, rq_headers = None\<rparr>"

text \<open>The waits of a timeline, oldest first.\<close>

fun sleeps_of :: "event list \<Rightarrow> real list" where
  "sleeps_of [] = []"
| "sleeps_of (Request rq # es) = sleeps_of es"
| "sleeps_of (Sleep d # es) = d # sleeps_of es"

text \<open>
  Two measures of sets of draws, at which the statement about the wait policy is
  exercised: the distance between the bounds of a set of draws, which is the length of an
  interval, and for a set of pairs of draws the product of the two distances, which is
  the area of a rectangle.
\<close>

definition interval_length :: "real set \<Rightarrow> real" where
  "interval_length S = (if S = {} then 0 else Sup S - Inf S)"

definition box_area :: "(real \<times> real) set \<Rightarrow> real" where
  "box_area S = interval_length (fst ` S) * interval_length (snd ` S)"

section \<open>Basic facts\<close>

lemma get_endpoint_unfold:
  "get_endpoint self w =
     (None, self,
      w\<lparr>timeline := timeline w @ [Request (the_request (base_url (client self)))],
        stats := stats w @ [(the_request (base_url (client self)), network w (length (stats w)))]\<rparr>)"
  by (simp add: get_endpoint_def get_def request_def the_request_def Let_def)

lemma task_cycle_unfold:
  "task_cycle c self w =
     (self,
      w\<lparr>timeline := timeline w @ [Request (the_request (base_url (client self))),
                                   Sleep (wait_time self (snd c))],
        stats := stats w @ [(the_request (base_url (client self)), network w (length (stats w)))]\<rparr>)"
  by (simp add: task_cycle_def tasks_def get_endpoint_unfold)

lemma requests_of_append: "requests_of (es @ fs) = requests_of es @ requests_of fs"
  by (induction es rule: requests_of.induct) simp_all

lemma run_user_self: "fst (run_user cs self w) = self"
  by (induction cs arbitrary: w) (simp_all add: task_cycle_unfold)

lemma run_user_requests:
  "requests_of (timeline (snd (run_user cs self w))) =
     requests_of (timeline w) @ replicate (length cs) (the_request (base_url (client self)))"
proof (induction cs arbitrary: w)
  case Nil
  show ?case by simp
next
  case (Cons c cs)
  show ?case
    by (simp add: task_cycle_unfold Cons.IH requests_of_append replicate_append_same)
qed

lemma between_bounds:
  assumes "min_wait \<le> max_wait" and "0 \<le> r" and "r < 1"
  shows "min_wait \<le> between min_wait max_wait r \<and> between min_wait max_wait r \<le> max_wait"
proof -
  have d: "0 \<le> max_wait - min_wait" using assms(1) by simp
  have lo: "0 \<le> r * (max_wait - min_wait)" using assms(2) d by simp
  have "r * (max_wait - min_wait) \<le> 1 * (max_wait - min_wait)"
    using assms(3) d by (intro mult_right_mono) simp_all
  then show ?thesis using lo by (simp add: between_def)
qed

lemma run_user_timeline_extends:
  "\<exists>rest. timeline (snd (run_user cs self w)) = timeline w @ rest"
proof (induction cs arbitrary: w)
  case Nil
  show ?case by simp
next
  case (Cons c cs)
  obtain rest where
    "timeline (snd (run_user cs self (snd (task_cycle c self w)))) =
       timeline (snd (task_cycle c self w)) @ rest"
    using Cons.IH by blast
  then show ?case by (simp add: task_cycle_unfold)
qed

lemma sleeps_of_append: "sleeps_of (es @ fs) = sleeps_of es @ sleeps_of fs"
  by (induction es rule: sleeps_of.induct) simp_all

lemma run_user_sleeps:
  "sleeps_of (timeline (snd (run_user cs self w))) =
     sleeps_of (timeline w) @ map (\<lambda>c. wait_time self (snd c)) cs"
proof (induction cs arbitrary: w)
  case Nil
  show ?case by simp
next
  case (Cons c cs)
  show ?case
    by (simp add: task_cycle_unfold Cons.IH sleeps_of_append)
qed

lemma interval_length_interval: "c \<le> d \<Longrightarrow> interval_length {c..<d} = d - c"
  by (cases "c = d") (simp_all add: interval_length_def)

lemma box_area_rectangle: "box_area (A \<times> B) = interval_length A * interval_length B"
proof (cases "A = {} \<or> B = {}")
  case True
  then show ?thesis by (auto simp: box_area_def interval_length_def)
next
  case False
  then have "fst ` (A \<times> B) = A" and "snd ` (A \<times> B) = B" by auto
  then show ?thesis by (simp add: box_area_def)
qed

lemma wait_time_preimage:
  assumes "1 \<le> a" and "b \<le> 5"
  shows "{r \<in> {0..<1}. ApiUser_wait_time r \<in> {a..<b}} = {(a - 1) / 4..<(b - 1) / 4}"
  using assms by (auto simp: ApiUser_wait_time_def between_def)

lemma wait_time_image: "ApiUser_wait_time ` {0..<1} = {1..<5}"
proof
  show "ApiUser_wait_time ` {0..<1} \<subseteq> {1..<5}"
    by (auto simp: ApiUser_wait_time_def between_def)
next
  show "{1..<5} \<subseteq> ApiUser_wait_time ` {0..<1}"
  proof
    fix d :: real
    assume d: "d \<in> {1..<5}"
    have "d = ApiUser_wait_time ((d - 1) / 4)"
      by (simp add: ApiUser_wait_time_def between_def field_simps)
    moreover have "(d - 1) / 4 \<in> {0..<1}" using d by simp
    ultimately show "d \<in> ApiUser_wait_time ` {0..<1}" by (rule image_eqI)
  qed
qed

lemma wait_time_draws_bounded:
  assumes "list_all (\<lambda>c. 0 \<le> snd c \<and> snd c < 1) cs"
  shows "list_all (\<lambda>d. 1 \<le> d \<and> d \<le> 5)
           (map (\<lambda>c. ApiUser_wait_time (snd c)) (cs :: (nat \<times> real) list))"
  using assms between_bounds [of 1 5]
  by (auto simp: list_all_iff ApiUser_wait_time_def)

section \<open>The claims\<close>

text \<open>
  C1. For every call of the task \<^verbatim>\<open>get_endpoint\<close>, on a session whose client is bound to
  the session's host (as the creation of a session leaves it), in any world: the call
  sends one request, its method is GET and its target is exactly the configured host
  followed by \<^verbatim>\<open>/infrastructure-info\<close>; the session's host and the host its client is
  bound to are the same after the call, so the next call has the same target.
\<close>

theorem get_endpoint_target:
  assumes "base_url (client self) = host self"
  shows "\<exists>rq. timeline (snd (snd (get_endpoint self w))) = timeline w @ [Request rq]
           \<and> rq_method rq = GET
           \<and> rq_url rq = host self @ ''/infrastructure-info''
           \<and> host (fst (snd (get_endpoint self w))) = host self
           \<and> base_url (client (fst (snd (get_endpoint self w)))) = host self"
  using assms by (simp add: get_endpoint_unfold the_request_def)

theorem get_endpoint_target_witness:
  "base_url (client ApiUser) = host ApiUser
   \<and> (\<exists>rq. timeline (snd (snd (get_endpoint ApiUser
               \<lparr>network = (\<lambda>n. Responded 200 ''ok''), timeline = [], stats = [], files = []\<rparr>)))
             = [] @ [Request rq]
           \<and> rq_method rq = GET
           \<and> rq_url rq = host ApiUser @ ''/infrastructure-info''
           \<and> host (fst (snd (get_endpoint ApiUser
               \<lparr>network = (\<lambda>n. Responded 200 ''ok''), timeline = [], stats = [], files = []\<rparr>))) = host ApiUser
           \<and> base_url (client (fst (snd (get_endpoint ApiUser
               \<lparr>network = (\<lambda>n. Responded 200 ''ok''), timeline = [], stats = [], files = []\<rparr>)))) = host ApiUser)"
proof -
  have h: "base_url (client ApiUser) = host ApiUser"
    by (simp add: ApiUser_def new_user_def)
  show ?thesis
    using h get_endpoint_target [OF h,
        of "\<lparr>network = (\<lambda>n. Responded 200 ''ok''), timeline = [], stats = [], files = []\<rparr>"]
    by simp
qed

text \<open>
  C2. The waits of a session of the class, with the random draws of the framework as
  inputs. In a run, each wait is the wait policy applied to the draw of its own cycle and
  to nothing else, and when every draw is in the interval from 0 (included) to 1
  (excluded), every wait \<open>d\<close> satisfies \<open>1 \<le> d \<le> 5\<close>. The waits fill the interval from 1
  to 5: the policy maps the draws onto it. Uniform: under any law \<open>P\<close> of one draw that
  gives every interval within the draws its length, the wait falls between \<open>a\<close> and \<open>b\<close>
  with probability \<open>(b - a) / 4\<close>, the share of the interval from 1 to 5 that lies between
  them. Independent: under any joint law \<open>Q\<close> of two draws that is the product of \<open>P\<close> with
  itself on rectangles, the probability that one wait falls between \<open>a\<close> and \<open>b\<close> and
  another between \<open>a'\<close> and \<open>b'\<close> is the product of the two probabilities.
\<close>

theorem wait_time_uniform_independent:
  fixes P :: "real set \<Rightarrow> real" and Q :: "(real \<times> real) set \<Rightarrow> real"
  assumes draws: "list_all (\<lambda>c. 0 \<le> snd c \<and> snd c < 1) cs"
    and uniform: "\<And>c d. 0 \<le> c \<Longrightarrow> c \<le> d \<Longrightarrow> d \<le> 1 \<Longrightarrow> P {c..<d} = d - c"
    and independent: "\<And>c d c' d'. Q ({c..<d} \<times> {c'..<d'}) = P {c..<d} * P {c'..<d'}"
    and ab: "1 \<le> a" "a \<le> b" "b \<le> 5"
    and ab': "1 \<le> a'" "a' \<le> b'" "b' \<le> 5"
  shows "sleeps_of (timeline (snd (run_user cs ApiUser w))) =
           sleeps_of (timeline w) @ map (\<lambda>c. ApiUser_wait_time (snd c)) cs
     \<and> list_all (\<lambda>d. 1 \<le> d \<and> d \<le> 5) (map (\<lambda>c. ApiUser_wait_time (snd c)) cs)
     \<and> ApiUser_wait_time ` {0..<1} = {1..<5}
     \<and> P {r \<in> {0..<1}. ApiUser_wait_time r \<in> {a..<b}} = (b - a) / 4
     \<and> Q {(r, r'). r \<in> {0..<1} \<and> r' \<in> {0..<1}
               \<and> ApiUser_wait_time r \<in> {a..<b} \<and> ApiUser_wait_time r' \<in> {a'..<b'}} =
         ((b - a) / 4) * ((b' - a') / 4)"
proof -
  have run: "sleeps_of (timeline (snd (run_user cs ApiUser w))) =
      sleeps_of (timeline w) @ map (\<lambda>c. ApiUser_wait_time (snd c)) cs"
    by (simp add: run_user_sleeps ApiUser_def new_user_def)
  have share: "P {(x - 1) / 4..<(y - 1) / 4} = (y - x) / 4"
    if "1 \<le> x" "x \<le> y" "y \<le> 5" for x y
  proof -
    have "P {(x - 1) / 4..<(y - 1) / 4} = (y - 1) / 4 - (x - 1) / 4"
      using that by (intro uniform) simp_all
    then show ?thesis by (simp add: diff_divide_distrib)
  qed
  have one: "P {r \<in> {0..<1}. ApiUser_wait_time r \<in> {a..<b}} = (b - a) / 4"
    using ab share [of a b] by (simp only: wait_time_preimage)
  have box: "{(r, r'). r \<in> {0..<1} \<and> r' \<in> {0..<1}
               \<and> ApiUser_wait_time r \<in> {a..<b} \<and> ApiUser_wait_time r' \<in> {a'..<b'}} =
        {(a - 1) / 4..<(b - 1) / 4} \<times> {(a' - 1) / 4..<(b' - 1) / 4}"
    using wait_time_preimage [OF ab(1) ab(3)] wait_time_preimage [OF ab'(1) ab'(3)]
    by blast
  have two: "Q {(r, r'). r \<in> {0..<1} \<and> r' \<in> {0..<1}
               \<and> ApiUser_wait_time r \<in> {a..<b} \<and> ApiUser_wait_time r' \<in> {a'..<b'}} =
         ((b - a) / 4) * ((b' - a') / 4)"
    unfolding box independent share [OF ab] share [OF ab'] ..
  show ?thesis
    using run wait_time_draws_bounded [OF draws] wait_time_image one two by blast
qed

theorem wait_time_uniform_independent_witness:
  "list_all (\<lambda>c. 0 \<le> snd c \<and> snd c < 1) [(0::nat, 1 / 2 :: real), (0, 3 / 4)]
   \<and> sleeps_of (timeline (snd (run_user [(0, 1 / 2), (0, 3 / 4)] ApiUser
        \<lparr>network = (\<lambda>n. Responded 200 ''ok''), timeline = [], stats = [], files = []\<rparr>))) = [3, 4]
   \<and> interval_length {0..<1} = 1
   \<and> interval_length {r \<in> {0..<1}. ApiUser_wait_time r \<in> {2..<3}} = 1 / 4
   \<and> box_area {(r, r'). r \<in> {0..<1} \<and> r' \<in> {0..<1}
               \<and> ApiUser_wait_time r \<in> {2..<3} \<and> ApiUser_wait_time r' \<in> {1..<5}} = 1 / 4"
proof -
  have draws: "list_all (\<lambda>c. 0 \<le> snd c \<and> snd c < 1) [(0::nat, 1 / 2 :: real), (0, 3 / 4)]"
    by simp
  have uniform: "\<And>c d :: real. 0 \<le> c \<Longrightarrow> c \<le> d \<Longrightarrow> d \<le> 1 \<Longrightarrow> interval_length {c..<d} = d - c"
    by (rule interval_length_interval)
  have independent: "\<And>c d c' d' :: real.
      box_area ({c..<d} \<times> {c'..<d'}) = interval_length {c..<d} * interval_length {c'..<d'}"
    by (rule box_area_rectangle)
  have whole: "interval_length {0..<1::real} = 1"
    using uniform [of 0 1] by simp
  show ?thesis
    using draws whole
      wait_time_uniform_independent [of "[(0, 1 / 2), (0, 3 / 4)]" interval_length box_area
        2 3 1 5 "\<lparr>network = (\<lambda>n. Responded 200 ''ok''), timeline = [], stats = [], files = []\<rparr>",
        OF draws uniform independent]
    by (simp add: ApiUser_wait_time_def between_def)
qed

text \<open>
  C3. The host the class declares is the constant string
  \<^verbatim>\<open>https://xen-global-system-895330382127.europe-west1.run.app\<close>, and in a run of a session
  of the class, of any length, from any world and with any answers of the network, every
  request sent is GET
  \<^verbatim>\<open>https://xen-global-system-895330382127.europe-west1.run.app/infrastructure-info\<close>: the
  requests of the run are as many copies of that one request as the run has cycles.
\<close>

theorem ApiUser_endpoint_constant:
  "host ApiUser = ''https://xen-global-system-895330382127.europe-west1.run.app''
   \<and> requests_of (timeline (snd (run_user cs ApiUser w))) =
       requests_of (timeline w) @ replicate (length cs)
         \<lparr>rq_method = GET,
          rq_url = ''https://xen-global-system-895330382127.europe-west1.run.app/infrastructure-info'',
          rq_params = None, rq_data = None, rq_json = None, rq_headers = None\<rparr>"
  by (simp add: run_user_requests ApiUser_def new_user_def ApiUser_host_def the_request_def)

text \<open>
  C5. The class registers exactly one task, and its name is \<^verbatim>\<open>get_endpoint\<close>. Whatever
  the engine's choice \<open>k\<close> among the tasks, and in whatever world (its history, its
  statistics, its files, the answers of its network), the task chosen sends exactly one
  request: GET to the path \<^verbatim>\<open>/infrastructure-info\<close> of the host the session was created
  with, without parameters, body or added headers. The task takes no argument but the
  session, and nothing but the session's host enters the request.
\<close>

theorem tasks_single_unparameterized:
  "length tasks = 1
   \<and> map fst tasks = [''get_endpoint'']
   \<and> timeline (snd (snd (snd (tasks ! (k mod length tasks)) (new_user h) w))) =
       timeline w @ [Request \<lparr>rq_method = GET, rq_url = h @ ''/infrastructure-info'',
                              rq_params = None, rq_data = None, rq_json = None,
                              rq_headers = None\<rparr>]"
  by (simp add: tasks_def get_endpoint_unfold new_user_def the_request_def)

text \<open>
  C6. A call of \<^verbatim>\<open>get_endpoint\<close> changes nothing of the session: the user object after
  the call is the one before it, and so are its host and its wait policy. The world after
  the call is the world after the one call of the client's \<^verbatim>\<open>get\<close>, which is the network
  exchange; the files are as before. Over a run of any length the session is the one the
  run started with.
\<close>

theorem get_endpoint_frame:
  "fst (snd (get_endpoint self w)) = self
   \<and> host (fst (snd (get_endpoint self w))) = host self
   \<and> wait_time (fst (snd (get_endpoint self w))) = wait_time self
   \<and> snd (snd (get_endpoint self w)) = snd (get (client self) ''/infrastructure-info'' [] w)
   \<and> files (snd (snd (get_endpoint self w))) = files w
   \<and> fst (run_user cs self w) = self
   \<and> files (snd (run_user cs self w)) = files w"
proof -
  have a: "snd (snd (get_endpoint self w)) = snd (get (client self) ''/infrastructure-info'' [] w)"
    by (simp add: get_endpoint_def split: prod.split)
  have b: "files (snd (run_user cs self w)) = files w"
    by (induction cs arbitrary: w) (simp_all add: task_cycle_unfold)
  have c: "files (snd (snd (get_endpoint self w))) = files w"
    by (simp add: get_endpoint_unfold)
  have d: "fst (snd (get_endpoint self w)) = self"
    by (simp add: get_endpoint_unfold)
  show ?thesis
    unfolding d using a b c run_user_self [of cs self w] by blast
qed

text \<open>
  C7. The request a call of \<^verbatim>\<open>get_endpoint\<close> sends is a GET with no body (neither
  \<^verbatim>\<open>data\<close> nor \<^verbatim>\<open>json\<close>), no query parameters (no \<^verbatim>\<open>params\<close>, and no question mark in
  the path) and no headers added to the framework's own.
\<close>

theorem get_endpoint_bare_request:
  "\<exists>rq. timeline (snd (snd (get_endpoint self w))) = timeline w @ [Request rq]
     \<and> rq_method rq = GET
     \<and> rq_url rq = base_url (client self) @ ''/infrastructure-info''
     \<and> rq_data rq = None \<and> rq_json rq = None
     \<and> rq_params rq = None \<and> CHR ''?'' \<notin> set ''/infrastructure-info''
     \<and> rq_headers rq = None"
  by (simp add: get_endpoint_unfold the_request_def)

text \<open>
  C9. \<^verbatim>\<open>get_endpoint\<close> returns \<^verbatim>\<open>None\<close> and leaves the user object as it was, whatever the
  network answers: with any other answers \<open>n'\<close> of the network, the returned value and the
  user object after the call are the same. Nothing of the response is returned or kept in
  the session.
\<close>

theorem get_endpoint_keeps_no_response:
  "fst (get_endpoint self w) = None
   \<and> fst (snd (get_endpoint self w)) = self
   \<and> fst (get_endpoint self (w\<lparr>network := n'\<rparr>)) = fst (get_endpoint self w)
   \<and> fst (snd (get_endpoint self (w\<lparr>network := n'\<rparr>))) = fst (snd (get_endpoint self w))"
  by (simp add: get_endpoint_unfold)

text \<open>
  C4. Let \<open>out\<close> be what the network answers to the request of a call of
  \<^verbatim>\<open>get_endpoint\<close>: a response of any status, a refused connection or a timeout. The call
  returns \<^verbatim>\<open>None\<close> all the same (no status is checked), sends one request and no second
  one (no retry), leaves the session as it was, and the engine's statistics get that
  request with \<open>out\<close> itself. The session goes on: in a run, every cycle sends its
  request, whatever the answers.
\<close>

theorem get_endpoint_no_local_handling:
  assumes "network w (length (stats w)) = out"
  shows "fst (get_endpoint self w) = None
   \<and> fst (snd (get_endpoint self w)) = self
   \<and> timeline (snd (snd (get_endpoint self w))) =
       timeline w @ [Request (the_request (base_url (client self)))]
   \<and> stats (snd (snd (get_endpoint self w))) =
       stats w @ [(the_request (base_url (client self)), out)]
   \<and> requests_of (timeline (snd (run_user cs self w))) =
       requests_of (timeline w) @ replicate (length cs) (the_request (base_url (client self)))"
  using assms by (simp add: get_endpoint_unfold run_user_requests)

theorem get_endpoint_no_local_handling_witness:
  "network \<lparr>network = (\<lambda>n. ConnectionRefused), timeline = [], stats = [], files = []\<rparr>
      (length (stats \<lparr>network = (\<lambda>n. ConnectionRefused), timeline = [], stats = [], files = []\<rparr>))
     = ConnectionRefused
   \<and> fst (get_endpoint ApiUser
        \<lparr>network = (\<lambda>n. ConnectionRefused), timeline = [], stats = [], files = []\<rparr>) = None
   \<and> stats (snd (snd (get_endpoint ApiUser
        \<lparr>network = (\<lambda>n. ConnectionRefused), timeline = [], stats = [], files = []\<rparr>))) =
       [(the_request (base_url (client ApiUser)), ConnectionRefused)]
   \<and> requests_of (timeline (snd (run_user [(0, 0), (0, 1 / 2)] ApiUser
        \<lparr>network = (\<lambda>n. ConnectionRefused), timeline = [], stats = [], files = []\<rparr>))) =
       [the_request (base_url (client ApiUser)), the_request (base_url (client ApiUser))]"
proof -
  have h: "network \<lparr>network = (\<lambda>n. ConnectionRefused), timeline = [], stats = [], files = []\<rparr>
      (length (stats \<lparr>network = (\<lambda>n. ConnectionRefused), timeline = [], stats = [], files = []\<rparr>))
     = ConnectionRefused"
    by simp
  show ?thesis
    using get_endpoint_no_local_handling [OF h, of ApiUser "[(0, 0), (0, 1 / 2)]"]
    by (simp add: numeral_2_eq_2)
qed

text \<open>
  C8. With the host configured to \<^verbatim>\<open>https://example.test\<close>, one task cycle of one user,
  in any world, with any choice \<open>k\<close> of the engine among the tasks and any sample \<open>r\<close> of
  the interval from 0 to 1 for the wait: the cycle adds to the timeline exactly one
  request, GET \<^verbatim>\<open>https://example.test/infrastructure-info\<close>, and after it one wait, of a
  duration between 1 and 5. Whatever the run does next comes after that wait.
\<close>

theorem example_host_one_cycle:
  assumes "0 \<le> r" and "r < 1"
  shows "\<exists>d. timeline (snd (task_cycle (k, r) (new_user ''https://example.test'') w)) =
           timeline w @
             [Request \<lparr>rq_method = GET, rq_url = ''https://example.test/infrastructure-info'',
                       rq_params = None, rq_data = None, rq_json = None, rq_headers = None\<rparr>,
              Sleep d]
         \<and> 1 \<le> d \<and> d \<le> 5
         \<and> (\<exists>rest. timeline (snd (run_user ((k, r) # cs) (new_user ''https://example.test'') w)) =
               timeline w @
                 [Request \<lparr>rq_method = GET, rq_url = ''https://example.test/infrastructure-info'',
                           rq_params = None, rq_data = None, rq_json = None, rq_headers = None\<rparr>,
                  Sleep d] @ rest)"
proof -
  let ?u = "new_user ''https://example.test''"
  let ?rq = "\<lparr>rq_method = GET, rq_url = ''https://example.test/infrastructure-info'',
              rq_params = None, rq_data = None, rq_json = None, rq_headers = None\<rparr>"
  have bounds: "1 \<le> between 1 5 r \<and> between 1 5 r \<le> 5"
    using between_bounds [of 1 5 r] assms by simp
  have cycle: "timeline (snd (task_cycle (k, r) ?u w)) =
      timeline w @ [Request ?rq, Sleep (between 1 5 r)]"
    by (simp add: task_cycle_unfold new_user_def the_request_def ApiUser_wait_time_def)
  obtain rest where rest:
    "timeline (snd (run_user cs ?u (snd (task_cycle (k, r) ?u w)))) =
       timeline (snd (task_cycle (k, r) ?u w)) @ rest"
    using run_user_timeline_extends by blast
  have "run_user ((k, r) # cs) ?u w = run_user cs ?u (snd (task_cycle (k, r) ?u w))"
    by (simp add: task_cycle_unfold)
  then have run: "timeline (snd (run_user ((k, r) # cs) ?u w)) =
      timeline w @ [Request ?rq, Sleep (between 1 5 r)] @ rest"
    using rest cycle by simp
  show ?thesis
    using bounds cycle run by blast
qed

theorem example_host_one_cycle_witness:
  "(0::real) \<le> 1 / 2 \<and> (1::real) / 2 < 1
   \<and> timeline (snd (task_cycle (0, 1 / 2) (new_user ''https://example.test'')
        \<lparr>network = (\<lambda>n. Responded 200 ''ok''), timeline = [], stats = [], files = []\<rparr>)) =
       [Request \<lparr>rq_method = GET, rq_url = ''https://example.test/infrastructure-info'',
                 rq_params = None, rq_data = None, rq_json = None, rq_headers = None\<rparr>,
        Sleep 3]"
proof -
  have h0: "(0::real) \<le> 1 / 2" by simp
  have h1: "(1::real) / 2 < 1" by simp
  show ?thesis
    using example_host_one_cycle [OF h0 h1, of 0
        "\<lparr>network = (\<lambda>n. Responded 200 ''ok''), timeline = [], stats = [], files = []\<rparr>" "[]"]
    by (simp add: task_cycle_unfold new_user_def ApiUser_wait_time_def between_def)
qed

text \<open>
  C10. Two calls of \<^verbatim>\<open>get_endpoint\<close>, by sessions \<open>s1\<close> and \<open>s2\<close> bound to the same host
  (the same session or two sessions), in any two worlds, send the same request: the same
  method, URL, parameters and body. And a run sends the same requests whatever the
  network answers: with answers \<open>n1\<close> or with answers \<open>n2\<close>, the requests of the run are
  the same, so no response changes a later request.
\<close>

theorem get_endpoint_request_deterministic:
  assumes "base_url (client s1) = base_url (client s2)"
  shows "drop (length (timeline w1)) (timeline (snd (snd (get_endpoint s1 w1)))) =
         drop (length (timeline w2)) (timeline (snd (snd (get_endpoint s2 w2))))
   \<and> drop (length (timeline w1)) (timeline (snd (snd (get_endpoint s1 w1)))) =
       [Request (the_request (base_url (client s1)))]
   \<and> requests_of (timeline (snd (run_user cs s1 (w\<lparr>network := n1\<rparr>)))) =
       requests_of (timeline (snd (run_user cs s2 (w\<lparr>network := n2\<rparr>))))"
  using assms by (simp add: get_endpoint_unfold run_user_requests)

theorem get_endpoint_request_deterministic_witness:
  "base_url (client ApiUser) = base_url (client (ApiUser\<lparr>wait_time := between 2 3\<rparr>))
   \<and> drop (length (timeline
          \<lparr>network = (\<lambda>n. Responded 200 ''ok''), timeline = [], stats = [], files = []\<rparr>))
        (timeline (snd (snd (get_endpoint ApiUser
          \<lparr>network = (\<lambda>n. Responded 200 ''ok''), timeline = [], stats = [], files = []\<rparr>)))) =
      drop (length (timeline
          \<lparr>network = (\<lambda>n. TimedOut), timeline = [Sleep 2], stats = [], files = []\<rparr>))
        (timeline (snd (snd (get_endpoint (ApiUser\<lparr>wait_time := between 2 3\<rparr>)
          \<lparr>network = (\<lambda>n. TimedOut), timeline = [Sleep 2], stats = [], files = []\<rparr>))))"
proof -
  have h: "base_url (client ApiUser) = base_url (client (ApiUser\<lparr>wait_time := between 2 3\<rparr>))"
    by simp
  show ?thesis
    using h get_endpoint_request_deterministic [OF h,
        of "\<lparr>network = (\<lambda>n. Responded 200 ''ok''), timeline = [], stats = [], files = []\<rparr>"
           "\<lparr>network = (\<lambda>n. TimedOut), timeline = [Sleep 2], stats = [], files = []\<rparr>"]
    by blast
qed

end
